theory Spec2Isabelle
  imports Main
begin

section \<open>JavaScript values used by the polling hook\<close>

text \<open>
  Identifiers are TypeScript values of type \<^verbatim>\<open>string | null\<close>: \<open>None\<close> is \<^verbatim>\<open>null\<close>,
  \<open>Some s\<close> a string. The hook never compares them with \<^verbatim>\<open>null\<close>; it tests them with
  \<^verbatim>\<open>!!x\<close>, \<^verbatim>\<open>!x\<close> and \<^verbatim>\<open>a && x\<close>, that is for truthiness, and the empty string is falsy.
\<close>

definition truthy :: "string option \<Rightarrow> bool" where
  "truthy x = (case x of None \<Rightarrow> False | Some s \<Rightarrow> s \<noteq> [])"

section \<open>Per-conversation persisted state (utils/conversation-local-storage)\<close>

text \<open>
  The module is not among the sources; its test suite
  (\<^verbatim>\<open>conversation localStorage utilities\<close>) and the specification are, and every
  definition of this section is modelled from them.
\<close>

text \<open>
  Modelled from the spec: the record \<^verbatim>\<open>ConversationState\<close> of the missing module
  \<^verbatim>\<open>conversation-local-storage\<close> (``\<^verbatim>\<open>selectedTab\<close>: last active UI tab;
  \<^verbatim>\<open>rightPanelShown\<close>: boolean; \<^verbatim>\<open>unpinnedTabs\<close>: set of tab identifiers;
  \<^verbatim>\<open>subConversationTaskId\<close>: nullable identifier''), with the field types of the
  objects the tests store and read back.
\<close>

record ConversationState =
  selectedTab :: string
  rightPanelShown :: bool
  unpinnedTabs :: "string list"
  subConversationTaskId :: "string option"

text \<open>
  Modelled from the spec: a partial record, \<^verbatim>\<open>Partial<ConversationState>\<close>, as the
  missing module stores and accepts it: every key may be absent (\<open>None\<close>). The key
  \<^verbatim>\<open>subConversationTaskId\<close> is nullable, so \<open>Some None\<close> is the key present with value
  \<^verbatim>\<open>null\<close>.
\<close>

record PartialConversationState =
  selectedTab_opt :: "string option"
  rightPanelShown_opt :: "bool option"
  unpinnedTabs_opt :: "string list option"
  subConversationTaskId_opt :: "string option option"

text \<open>Modelled from the spec: the partial record \<^verbatim>\<open>{}\<close> that names no key.\<close>

definition no_keys :: PartialConversationState where
  "no_keys = \<lparr>selectedTab_opt = None, rightPanelShown_opt = None,
              unpinnedTabs_opt = None, subConversationTaskId_opt = None\<rparr>"

text \<open>
  Modelled from the spec: merging one key (``new fields overwrite only the named keys;
  unspecified keys are preserved''), the value \<open>a\<close> being present and the new one possibly
  absent.
\<close>

definition spread_key :: "'a \<Rightarrow> 'a option \<Rightarrow> 'a" where
  "spread_key a b = (case b of None \<Rightarrow> a | Some v \<Rightarrow> v)"

text \<open>Modelled from the spec: the same merge when the key may be absent on both sides.\<close>

definition spread_opt :: "'a option \<Rightarrow> 'a option \<Rightarrow> 'a option" where
  "spread_opt a b = (case b of None \<Rightarrow> a | Some v \<Rightarrow> Some v)"

text \<open>
  Modelled from the spec: the default record of the missing module
  \<^verbatim>\<open>conversation-local-storage\<close> (``returns defaults merged with any stored partial
  record''); the four values are the ones its test \<^verbatim>\<open>returns default state with
  subConversationTaskId as null when no state exists\<close> expects.
\<close>

definition DEFAULT_CONVERSATION_STATE :: ConversationState where
  "DEFAULT_CONVERSATION_STATE =
     \<lparr>selectedTab = ''editor'', rightPanelShown = True,
      unpinnedTabs = [], subConversationTaskId = None\<rparr>"

text \<open>
  Modelled from the spec: merging a partial record over a complete one, key by key
  (``new fields overwrite only the named keys; unspecified keys are preserved'').
\<close>

definition merge_state :: "ConversationState \<Rightarrow> PartialConversationState \<Rightarrow> ConversationState" where
  "merge_state s p =
     \<lparr>selectedTab = spread_key (selectedTab s) (selectedTab_opt p),
      rightPanelShown = spread_key (rightPanelShown s) (rightPanelShown_opt p),
      unpinnedTabs = spread_key (unpinnedTabs s) (unpinnedTabs_opt p),
      subConversationTaskId = spread_key (subConversationTaskId s) (subConversationTaskId_opt p)\<rparr>"

text \<open>
  Modelled from the spec: merging a partial record into the stored (possibly partial)
  record of the missing module \<^verbatim>\<open>conversation-local-storage\<close>
  (``merges partial into existing stored record'').
\<close>

definition merge_partial ::
  "PartialConversationState \<Rightarrow> PartialConversationState \<Rightarrow> PartialConversationState" where
  "merge_partial a b =
     \<lparr>selectedTab_opt = spread_opt (selectedTab_opt a) (selectedTab_opt b),
      rightPanelShown_opt = spread_opt (rightPanelShown_opt a) (rightPanelShown_opt b),
      unpinnedTabs_opt = spread_opt (unpinnedTabs_opt a) (unpinnedTabs_opt b),
      subConversationTaskId_opt =
        spread_opt (subConversationTaskId_opt a) (subConversationTaskId_opt b)\<rparr>"

text \<open>
  Modelled from the spec: the persisted key-value store (the browser's
  \<^verbatim>\<open>localStorage\<close>), restricted to conversation records: a map from storage keys to the
  stored object.
\<close>

type_synonym local_storage = "string \<rightharpoonup> PartialConversationState"

text \<open>
  Modelled from the spec: the storage key of the missing module
  \<^verbatim>\<open>conversation-local-storage\<close> (``a fixed prefix concatenated with the conversation
  id''). The tests build it as
  \<^verbatim>\<open>`${LOCAL_STORAGE_KEYS.CONVERSATION_STATE}-${conversationId}`\<close>; the value of the
  constant \<^verbatim>\<open>LOCAL_STORAGE_KEYS.CONVERSATION_STATE\<close> is not in the sources and is the
  parameter \<open>ck\<close> throughout.
\<close>

definition conversation_state_key :: "string \<Rightarrow> string \<Rightarrow> string" where
  "conversation_state_key ck conversationId = ck @ ''-'' @ conversationId"

text \<open>
  Modelled from the spec: \<^verbatim>\<open>getConversationState\<close> of the missing module
  \<^verbatim>\<open>conversation-local-storage\<close> (``returns defaults merged with any stored partial
  record when absent or partial'').
\<close>

definition getConversationState :: "string \<Rightarrow> local_storage \<Rightarrow> string \<Rightarrow> ConversationState" where
  "getConversationState ck ls conversationId =
     (case ls (conversation_state_key ck conversationId) of
        None \<Rightarrow> DEFAULT_CONVERSATION_STATE
      | Some stored \<Rightarrow> merge_state DEFAULT_CONVERSATION_STATE stored)"

text \<open>
  Modelled from the spec: \<^verbatim>\<open>setConversationState\<close> of the missing module
  \<^verbatim>\<open>conversation-local-storage\<close> (``merges partial into existing stored record, writing
  under a key namespaced by the conversation id''; ``read-modify-merge semantics ... rather
  than whole-record replacement'').
\<close>

definition setConversationState ::
  "string \<Rightarrow> string \<Rightarrow> PartialConversationState \<Rightarrow> local_storage \<Rightarrow> local_storage" where
  "setConversationState ck conversationId updates ls =
     (let key = conversation_state_key ck conversationId;
          existing = (case ls key of None \<Rightarrow> no_keys | Some stored \<Rightarrow> stored)
      in ls(key \<mapsto> merge_partial existing updates))"

text \<open>
  The update the polling hook passes to \<^verbatim>\<open>setConversationState\<close>, from the hook's
  source: \<^verbatim>\<open>{ subConversationTaskId: null }\<close>.
\<close>

definition clear_task_id :: PartialConversationState where
  "clear_task_id = no_keys\<lparr>subConversationTaskId_opt := Some None\<rparr>"

section \<open>In-memory conversation store (stores/conversation-store)\<close>

text \<open>
  Modelled from the spec: the missing store \<^verbatim>\<open>conversation-store\<close> (``exposes a setter
  for the sub-conversation task id field''). The other fields of the store are the
  record's extension and are left alone by the setter.
\<close>

record conversation_store =
  store_subConversationTaskId :: "string option"

definition setSubConversationTaskId ::
  "string option \<Rightarrow> 'a conversation_store_scheme \<Rightarrow> 'a conversation_store_scheme" where
  "setSubConversationTaskId v st = st\<lparr>store_subConversationTaskId := v\<rparr>"

section \<open>The task service and the client-side environment\<close>

text \<open>
  A start task, \<^verbatim>\<open>V1AppConversationStartTask\<close>. Its type declaration is not among the
  sources; the fields are those of the tasks the hook's tests build (\<^verbatim>\<open>makeTask\<close>),
  \<open>task_id\<close> being the field \<^verbatim>\<open>id\<close> and the two times ISO strings. The hook reads
  \<^verbatim>\<open>status\<close>, \<^verbatim>\<open>detail\<close> and \<^verbatim>\<open>app_conversation_id\<close>; the other fields count
  when two answers are compared. The status is the string the service sends; the hook
  compares it with the literals \<^verbatim>\<open>"READY"\<close> and \<^verbatim>\<open>"ERROR"\<close> only.
\<close>

record start_request =
  agent_type :: string
  parent_conversation_id :: string

record V1AppConversationStartTask =
  task_id :: string
  created_by_user_id :: string
  status :: string
  detail :: "string option"
  app_conversation_id :: "string option"
  sandbox_id :: "string option"
  agent_server_url :: "string option"
  request :: start_request
  created_at :: string
  updated_at :: string

text \<open>
  The three calls the hook's effect can make: \<^verbatim>\<open>queryClient.invalidateQueries({queryKey})\<close>,
  \<^verbatim>\<open>setConversationState(conversationId, updates)\<close> and
  \<^verbatim>\<open>setSubConversationTaskId(value)\<close>.
\<close>

datatype call =
    InvalidateQueries "string list"
  | SetConversationState string PartialConversationState
  | SetSubConversationTaskId "string option"

text \<open>
  What the calls act on: the persisted records, the in-memory store, the query keys the
  cache was told are stale (oldest first), and the task ids requested from the task
  service (oldest first).
\<close>

record world =
  localStorage :: local_storage
  conversationStore :: conversation_store
  invalidated :: "string list list"
  requests :: "string list"

fun perform :: "string \<Rightarrow> call \<Rightarrow> world \<Rightarrow> world" where
  "perform ck (InvalidateQueries queryKey) w = w\<lparr>invalidated := invalidated w @ [queryKey]\<rparr>"
| "perform ck (SetConversationState conversationId updates) w =
     w\<lparr>localStorage := setConversationState ck conversationId updates (localStorage w)\<rparr>"
| "perform ck (SetSubConversationTaskId v) w =
     w\<lparr>conversationStore := setSubConversationTaskId v (conversationStore w)\<rparr>"

definition perform_all :: "string \<Rightarrow> call list \<Rightarrow> world \<Rightarrow> world" where
  "perform_all ck cs w = fold (perform ck) cs w"

definition is_invalidation :: "call \<Rightarrow> bool" where
  "is_invalidation c = (case c of InvalidateQueries k \<Rightarrow> True | _ \<Rightarrow> False)"

section \<open>The hook \<^verbatim>\<open>useSubConversationTaskPolling\<close>\<close>

text \<open>The option \<^verbatim>\<open>enabled: !!taskId && !!parentConversationId\<close>.\<close>

definition enabled :: "string option \<Rightarrow> string option \<Rightarrow> bool" where
  "enabled taskId parentConversationId = (truthy taskId \<and> truthy parentConversationId)"

text \<open>
  The option \<^verbatim>\<open>queryFn\<close>: \<^verbatim>\<open>if (!taskId) return null; return
  V1ConversationService.getStartTask(taskId)\<close>. The service call may reject (\<open>Inl\<close>);
  \<^verbatim>\<open>null\<close> is \<open>Inr None\<close>.
\<close>

definition queryFn ::
  "(string \<Rightarrow> 'e + V1AppConversationStartTask) \<Rightarrow> string option
     \<Rightarrow> 'e + V1AppConversationStartTask option" where
  "queryFn getStartTask taskId =
     (case taskId of
        None \<Rightarrow> Inr None
      | Some t \<Rightarrow>
          if t = [] then Inr None
          else (case getStartTask t of Inl e \<Rightarrow> Inl e | Inr task \<Rightarrow> Inr (Some task)))"

text \<open>The arguments of the calls of \<^verbatim>\<open>getStartTask\<close> that one run of \<^verbatim>\<open>queryFn\<close> makes.\<close>

definition requested :: "string option \<Rightarrow> string list" where
  "requested taskId = (case taskId of None \<Rightarrow> [] | Some t \<Rightarrow> if t = [] then [] else [t])"

text \<open>
  The option \<^verbatim>\<open>refetchInterval\<close>, applied to \<^verbatim>\<open>query.state.data\<close> (\<open>None\<close> when the
  data is \<^verbatim>\<open>undefined\<close> or \<^verbatim>\<open>null\<close>). The result \<open>None\<close> is \<^verbatim>\<open>false\<close>, \<open>Some ms\<close> a
  delay in milliseconds.
\<close>

definition refetchInterval :: "V1AppConversationStartTask option \<Rightarrow> nat option" where
  "refetchInterval d =
     (case d of
        None \<Rightarrow> None
      | Some task \<Rightarrow>
          if status task = ''READY'' \<or> status task = ''ERROR'' then None
          else Some 3000)"

text \<open>
  The body of the hook's \<^verbatim>\<open>useEffect\<close>, as the list of calls it makes in order, for the
  current \<^verbatim>\<open>taskQuery.data\<close> and \<^verbatim>\<open>parentConversationId\<close>.
\<close>

definition settlement_effect ::
  "V1AppConversationStartTask option \<Rightarrow> string option \<Rightarrow> call list" where
  "settlement_effect d parentConversationId =
     (case parentConversationId of
        None \<Rightarrow> []
      | Some pid \<Rightarrow>
          if pid = [] then []
          else (case d of
                  None \<Rightarrow> []
                | Some task \<Rightarrow>
                    if status task = ''READY'' \<and> truthy (app_conversation_id task) then
                      [InvalidateQueries [''user'', ''conversation'', pid],
                       SetConversationState pid clear_task_id,
                       SetSubConversationTaskId None]
                    else if status task = ''ERROR'' then
                      [SetConversationState pid clear_task_id,
                       SetSubConversationTaskId None]
                    else []))"

text \<open>
  The state of the query the hook observes: \<^verbatim>\<open>taskQuery.data\<close> and
  \<^verbatim>\<open>taskQuery.error\<close>.
\<close>

record 'e task_query =
  data :: "V1AppConversationStartTask option"
  error :: "'e option"

text \<open>
  The object the hook returns. \<^verbatim>\<open>isLoadingTask\<close> is left out: it tells whether the first
  request is in flight, and a request has no duration here.
\<close>

record 'e polling_result =
  task :: "V1AppConversationStartTask option"
  taskStatus :: "string option"
  taskDetail :: "string option"
  taskError :: "'e option"
  subConversationId :: "string option"

definition hook_result :: "'e task_query \<Rightarrow> 'e polling_result" where
  "hook_result q =
     \<lparr>task = data q,
      taskStatus = map_option status (data q),
      taskDetail = Option.bind (data q) detail,
      taskError = error q,
      subConversationId = Option.bind (data q) app_conversation_id\<rparr>"

text \<open>
  A mounted hook: its query, the refetch delay currently armed (\<open>None\<close>: no further
  request is scheduled), the calls its effect has made so far (oldest first), and the
  world those calls act on.
\<close>

record 'e polling =
  taskQuery :: "'e task_query"
  interval :: "nat option"
  calls :: "call list"
  world :: world

definition mount :: "world \<Rightarrow> 'e polling" where
  "mount w = \<lparr>taskQuery = \<lparr>data = None, error = None\<rparr>, interval = None, calls = [], world = w\<rparr>"

text \<open>
  The runs of the hook's \<^verbatim>\<open>useEffect\<close>. Its dependency array is
  \<^verbatim>\<open>[taskQuery.data, parentConversationId, queryClient, setSubConversationTaskId]\<close>, of
  which only the data changes during the life of a mounted hook: the effect runs when
  the hook mounts, on no data, where it makes no call, and again only when a render brings
  data other than the data of the render before. An answer equal to the data already held
  leaves \<^verbatim>\<open>taskQuery.data\<close> the same object (the query library shares the structure of
  equal results), so the effect does not run on it.
\<close>

definition effect_runs ::
  "V1AppConversationStartTask option \<Rightarrow> V1AppConversationStartTask option \<Rightarrow> string option
     \<Rightarrow> call list" where
  "effect_runs before after parentConversationId =
     (if after = before then [] else settlement_effect after parentConversationId)"

text \<open>
  One scheduled request of the query, which the query library runs with the hook's
  options. A disabled query requests nothing. Otherwise \<^verbatim>\<open>queryFn\<close> runs once
  (\<^verbatim>\<open>retry: false\<close>); a result replaces the data and resets the error, and the effect
  runs if the data changed; a rejection is stored as the error and leaves the data, so the
  effect does not run. Then \<^verbatim>\<open>refetchInterval\<close> is evaluated on the query's data to arm
  the next request.
\<close>

definition poll ::
  "string \<Rightarrow> (string \<Rightarrow> 'e + V1AppConversationStartTask) \<Rightarrow> string option \<Rightarrow> string option
     \<Rightarrow> 'e polling \<Rightarrow> 'e polling" where
  "poll ck getStartTask taskId parentConversationId h =
     (if enabled taskId parentConversationId then
        (let q = taskQuery h;
             r = queryFn getStartTask taskId;
             q' = (case r of Inl e \<Rightarrow> q\<lparr>error := Some e\<rparr>
                   | Inr d \<Rightarrow> q\<lparr>data := d, error := None\<rparr>);
             cs = effect_runs (data q) (data q') parentConversationId;
             w = (world h)\<lparr>requests := requests (world h) @ requested taskId\<rparr>
         in \<lparr>taskQuery = q', interval = refetchInterval (data q'),
             calls = calls h @ cs, world = perform_all ck cs w\<rparr>)
      else h)"

text \<open>
  A polling session: the task service's behaviour at each successive request is the list;
  the next request happens only while a refetch delay is armed.
\<close>

fun session ::
  "string \<Rightarrow> string option \<Rightarrow> string option \<Rightarrow> (string \<Rightarrow> 'e + V1AppConversationStartTask) list
     \<Rightarrow> 'e polling \<Rightarrow> 'e polling" where
  "session ck taskId parentConversationId [] h = h"
| "session ck taskId parentConversationId (getStartTask # later) h =
     (let h' = poll ck getStartTask taskId parentConversationId h
      in case interval h' of
           None \<Rightarrow> h'
         | Some ms \<Rightarrow> session ck taskId parentConversationId later h')"

text \<open>
  A hook that has seen no terminal answer yet: it holds no data, or a task that is
  neither \<^verbatim>\<open>READY\<close> nor \<^verbatim>\<open>ERROR\<close>.
\<close>

definition unsettled :: "'e polling \<Rightarrow> bool" where
  "unsettled h =
     (case data (taskQuery h) of
        None \<Rightarrow> True
      | Some t \<Rightarrow> status t \<noteq> ''READY'' \<and> status t \<noteq> ''ERROR'')"

section \<open>The scenario of the hook's tests\<close>

text \<open>
  Task \<^verbatim>\<open>task-123\<close> started from conversation \<^verbatim>\<open>parent-conv-123\<close>: the persisted
  record and the store both track the task, nothing was invalidated or requested yet.
\<close>

definition scenario_ck :: string where
  "scenario_ck = ''conversation-state''"

definition scenario_world :: world where
  "scenario_world =
     \<lparr>localStorage =
        [conversation_state_key scenario_ck ''parent-conv-123'' \<mapsto>
           no_keys\<lparr>subConversationTaskId_opt := Some (Some ''task-123'')\<rparr>],
      conversationStore = \<lparr>store_subConversationTaskId = Some ''task-123''\<rparr>,
      invalidated = [],
      requests = []\<rparr>"

text \<open>
  \<^verbatim>\<open>makeTask(status, appConversationId)\<close> of the tests. The tests stamp the task with the
  time of the call; the instant is a fixed one here.
\<close>

definition makeTask :: "string \<Rightarrow> string option \<Rightarrow> V1AppConversationStartTask" where
  "makeTask st appConversationId =
     \<lparr>task_id = ''task-123'', created_by_user_id = ''user-123'', status = st, detail = None,
      app_conversation_id = appConversationId, sandbox_id = None, agent_server_url = None,
      request = \<lparr>agent_type = ''plan'', parent_conversation_id = ''parent-conv-123''\<rparr>,
      created_at = ''2025-01-01T00:00:00.000Z'', updated_at = ''2025-01-01T00:00:00.000Z''\<rparr>"

text \<open>A task service that resolves with a given task, and one that rejects.\<close>

definition resolves :: "V1AppConversationStartTask \<Rightarrow> string \<Rightarrow> string + V1AppConversationStartTask" where
  "resolves t taskId = Inr t"

definition rejects :: "string \<Rightarrow> string \<Rightarrow> string + V1AppConversationStartTask" where
  "rejects e taskId = Inl e"

text \<open>
  The persisted record of the storage tests' merge scenario, stored for \<^verbatim>\<open>conv-123\<close>.
\<close>

definition stored_changes :: PartialConversationState where
  "stored_changes =
     \<lparr>selectedTab_opt = Some ''changes'', rightPanelShown_opt = Some False,
      unpinnedTabs_opt = Some [''tab-1''], subConversationTaskId_opt = Some (Some ''old'')\<rparr>"

section \<open>Basic facts\<close>

lemma truthy_simps: "truthy None = False" "truthy (Some s) = (s \<noteq> [])"
  by (simp_all add: truthy_def)

lemma perform_all_simps:
  "perform_all ck [] w = w"
  "perform_all ck (c # cs) w = perform_all ck cs (perform ck c w)"
  by (simp_all add: perform_all_def)

lemma effect_runs_simps:
  "effect_runs d d p = []"
  "d' \<noteq> d \<Longrightarrow> effect_runs d d' p = settlement_effect d' p"
  by (simp_all add: effect_runs_def)

lemma poll_result:
  assumes "enabled taskId parentConversationId" and "queryFn getStartTask taskId = Inr d"
  shows "poll ck getStartTask taskId parentConversationId h =
           \<lparr>taskQuery = (taskQuery h)\<lparr>data := d, error := None\<rparr>,
            interval = refetchInterval d,
            calls = calls h @ effect_runs (data (taskQuery h)) d parentConversationId,
            world = perform_all ck (effect_runs (data (taskQuery h)) d parentConversationId)
                      ((world h)\<lparr>requests := requests (world h) @ requested taskId\<rparr>)\<rparr>"
  using assms by (simp add: poll_def Let_def)

lemma poll_rejection:
  assumes "enabled taskId parentConversationId" and "queryFn getStartTask taskId = Inl e"
  shows "poll ck getStartTask taskId parentConversationId h =
           \<lparr>taskQuery = (taskQuery h)\<lparr>error := Some e\<rparr>,
            interval = refetchInterval (data (taskQuery h)),
            calls = calls h,
            world = (world h)\<lparr>requests := requests (world h) @ requested taskId\<rparr>\<rparr>"
  using assms by (simp add: poll_def Let_def perform_all_def effect_runs_simps)

lemma poll_disabled:
  "\<not> enabled taskId parentConversationId \<Longrightarrow> poll ck g taskId parentConversationId h = h"
  by (simp add: poll_def)

text \<open>An answer that changes the data: the effect runs on it.\<close>

lemma poll_observed:
  assumes "enabled taskId parentConversationId"
    and "queryFn getStartTask taskId = Inr d"
    and "data (taskQuery h) \<noteq> d"
    and "settlement_effect d parentConversationId = cs"
  shows "calls (poll ck getStartTask taskId parentConversationId h) = calls h @ cs"
    and "world (poll ck getStartTask taskId parentConversationId h) =
           perform_all ck cs ((world h)\<lparr>requests := requests (world h) @ requested taskId\<rparr>)"
    and "interval (poll ck getStartTask taskId parentConversationId h) = refetchInterval d"
    and "taskQuery (poll ck getStartTask taskId parentConversationId h) =
           (taskQuery h)\<lparr>data := d, error := None\<rparr>"
proof -
  from assms(3,4) have "effect_runs (data (taskQuery h)) d parentConversationId = cs"
    by (simp add: effect_runs_def)
  with assms(1,2) show
    "calls (poll ck getStartTask taskId parentConversationId h) = calls h @ cs"
    "world (poll ck getStartTask taskId parentConversationId h) =
       perform_all ck cs ((world h)\<lparr>requests := requests (world h) @ requested taskId\<rparr>)"
    "interval (poll ck getStartTask taskId parentConversationId h) = refetchInterval d"
    "taskQuery (poll ck getStartTask taskId parentConversationId h) =
       (taskQuery h)\<lparr>data := d, error := None\<rparr>"
    by (simp_all add: poll_result)
qed

text \<open>An answer on which the effect has nothing to do, whether or not it runs.\<close>

lemma poll_quiet:
  assumes "enabled taskId parentConversationId"
    and "queryFn getStartTask taskId = Inr d"
    and "settlement_effect d parentConversationId = []"
  shows "calls (poll ck getStartTask taskId parentConversationId h) = calls h"
    and "world (poll ck getStartTask taskId parentConversationId h) =
           (world h)\<lparr>requests := requests (world h) @ requested taskId\<rparr>"
    and "interval (poll ck getStartTask taskId parentConversationId h) = refetchInterval d"
    and "taskQuery (poll ck getStartTask taskId parentConversationId h) =
           (taskQuery h)\<lparr>data := d, error := None\<rparr>"
proof -
  from assms(3) have "effect_runs (data (taskQuery h)) d parentConversationId = []"
    by (simp add: effect_runs_def)
  with assms(1,2) show
    "calls (poll ck getStartTask taskId parentConversationId h) = calls h"
    "world (poll ck getStartTask taskId parentConversationId h) =
       (world h)\<lparr>requests := requests (world h) @ requested taskId\<rparr>"
    "interval (poll ck getStartTask taskId parentConversationId h) = refetchInterval d"
    "taskQuery (poll ck getStartTask taskId parentConversationId h) =
       (taskQuery h)\<lparr>data := d, error := None\<rparr>"
    by (simp_all add: poll_result perform_all_simps)
qed

text \<open>An answer equal to the data already held: the effect does not run.\<close>

lemma poll_repeated:
  assumes "enabled taskId parentConversationId"
    and "queryFn getStartTask taskId = Inr d"
    and "data (taskQuery h) = d"
  shows "calls (poll ck getStartTask taskId parentConversationId h) = calls h"
    and "world (poll ck getStartTask taskId parentConversationId h) =
           (world h)\<lparr>requests := requests (world h) @ requested taskId\<rparr>"
    and "interval (poll ck getStartTask taskId parentConversationId h) = refetchInterval d"
  using assms by (simp_all add: poll_result effect_runs_simps perform_all_simps)

text \<open>
  Where a session makes its requests: a mounted hook is unsettled, a hook whose refetch
  delay is armed after a request is unsettled, and the data of an unsettled hook is no
  terminal task, so that a terminal answer always changes it.
\<close>

lemma unsettled_mount: "unsettled (mount w)"
  by (simp add: unsettled_def mount_def)

lemma refetchInterval_armed:
  "refetchInterval d = Some ms \<Longrightarrow>
   \<exists>t. d = Some t \<and> status t \<noteq> ''READY'' \<and> status t \<noteq> ''ERROR'' \<and> ms = 3000"
  by (auto simp add: refetchInterval_def split: option.splits if_splits)

lemma unsettled_while_armed:
  assumes "enabled taskId parentConversationId"
    and "interval (poll ck getStartTask taskId parentConversationId h) = Some ms"
  shows "unsettled (poll ck getStartTask taskId parentConversationId h)"
proof (cases "queryFn getStartTask taskId")
  case (Inl e)
  with assms show ?thesis
    by (auto simp add: poll_rejection unsettled_def dest: refetchInterval_armed)
next
  case (Inr d)
  with assms show ?thesis
    by (auto simp add: poll_result unsettled_def dest: refetchInterval_armed)
qed

lemma unsettled_terminal_is_new:
  assumes "unsettled h" and "status t = ''READY'' \<or> status t = ''ERROR''"
  shows "data (taskQuery h) \<noteq> Some t"
  using assms by (auto simp add: unsettled_def)

text \<open>
  Over a whole session, whatever the service answers, the cache is told at most once that
  a key is stale: a request after which the session goes on has made no call.
\<close>

lemma settlement_effect_in_progress:
  "refetchInterval d = Some ms \<Longrightarrow> settlement_effect d p = []"
  by (auto simp add: settlement_effect_def dest!: refetchInterval_armed split: option.splits)

lemma settlement_effect_one_invalidation:
  "length (filter is_invalidation (settlement_effect d p)) \<le> 1"
  by (simp add: settlement_effect_def is_invalidation_def split: option.splits)

lemma poll_one_invalidation:
  "length (filter is_invalidation (calls (poll ck g taskId p h)))
     \<le> length (filter is_invalidation (calls h)) + 1"
proof (cases "enabled taskId p")
  case False
  then show ?thesis by (simp add: poll_disabled)
next
  case True
  show ?thesis
  proof (cases "queryFn g taskId")
    case (Inl e)
    with True show ?thesis by (simp add: poll_rejection)
  next
    case (Inr d)
    with True settlement_effect_one_invalidation [of d p] show ?thesis
      by (simp add: poll_result effect_runs_def)
  qed
qed

lemma poll_armed_no_call:
  assumes "interval (poll ck g taskId p h) = Some ms" and "enabled taskId p"
  shows "calls (poll ck g taskId p h) = calls h"
proof (cases "queryFn g taskId")
  case (Inl e)
  with assms show ?thesis by (simp add: poll_rejection)
next
  case (Inr d)
  with assms have "refetchInterval d = Some ms"
    by (simp add: poll_result)
  then have "settlement_effect d p = []"
    by (rule settlement_effect_in_progress)
  with Inr assms(2) show ?thesis
    by (simp add: poll_quiet)
qed

lemma session_invalidates_at_most_once:
  "length (filter is_invalidation (calls (session ck taskId p services h)))
     \<le> length (filter is_invalidation (calls h)) + 1"
proof (induction services arbitrary: h)
  case Nil
  then show ?case by simp
next
  case (Cons g later)
  show ?case
  proof (cases "interval (poll ck g taskId p h)")
    case None
    then show ?thesis
      using poll_one_invalidation [of ck g taskId p h] by (simp add: Let_def)
  next
    case (Some ms)
    have "calls (poll ck g taskId p h) = calls h"
    proof (cases "enabled taskId p")
      case True
      with Some show ?thesis by (rule poll_armed_no_call)
    next
      case False
      then show ?thesis by (simp add: poll_disabled)
    qed
    with Some Cons.IH [of "poll ck g taskId p h"] show ?thesis
      by (simp add: Let_def)
  qed
qed

lemma key_inject:
  "(conversation_state_key ck a = conversation_state_key ck b) = (a = b)"
  by (simp add: conversation_state_key_def)

lemma merge_state_default_partial:
  "merge_state DEFAULT_CONVERSATION_STATE (merge_partial a b) =
     merge_state (merge_state DEFAULT_CONVERSATION_STATE a) b"
  by (simp add: merge_state_def merge_partial_def spread_key_def spread_opt_def
           split: option.splits)

lemma merge_state_no_keys: "merge_state s no_keys = s"
  by (simp add: merge_state_def no_keys_def spread_key_def)

lemma get_after_set:
  "getConversationState ck (setConversationState ck cid upd ls) cid =
     merge_state (getConversationState ck ls cid) upd"
  by (simp add: getConversationState_def setConversationState_def Let_def
        merge_state_default_partial merge_state_no_keys split: option.splits)

lemma get_after_set_other:
  "cid' \<noteq> cid \<Longrightarrow>
   getConversationState ck (setConversationState ck cid upd ls) cid' =
     getConversationState ck ls cid'"
  by (simp add: getConversationState_def setConversationState_def Let_def key_inject)

lemma clear_persisted:
  "map_option subConversationTaskId_opt
     (setConversationState ck cid clear_task_id ls (conversation_state_key ck cid)) =
   Some (Some None)"
  by (simp add: setConversationState_def Let_def merge_partial_def clear_task_id_def
        spread_opt_def)

lemma clear_read_back:
  "subConversationTaskId
     (getConversationState ck (setConversationState ck cid clear_task_id ls) cid) = None"
  by (simp add: get_after_set merge_state_def clear_task_id_def spread_key_def)

lemma scenario_polled: "enabled (Some ''task-123'') (Some ''parent-conv-123'')"
  by (simp add: enabled_def truthy_simps)

lemma scenario_observed:
  "queryFn (resolves t) (Some ''task-123'') = Inr (Some t)"
  by (simp add: queryFn_def resolves_def)

section \<open>Settlement on success\<close>

text \<open>
  C1 (amended). For every polled task observed with status \<^verbatim>\<open>READY\<close> and a result
  reference \<^verbatim>\<open>app_conversation_id\<close> that is neither \<^verbatim>\<open>null\<close> nor the empty string, under
  an enabled query with parent conversation \<open>pid\<close>: when the answer becomes the query's
  data (it is not the data already held, so the effect runs), the effect issues exactly
  the calls \<^verbatim>\<open>invalidateQueries(["user","conversation",pid])\<close>,
  \<^verbatim>\<open>setConversationState(pid, {subConversationTaskId: null})\<close> and
  \<^verbatim>\<open>setSubConversationTaskId(null)\<close>, in this order; so exactly one query key is added to
  the invalidated ones, namely that compound key; \<^verbatim>\<open>subConversationTaskId\<close> is
  \<^verbatim>\<open>null\<close> in the persisted record (as stored and as read back) and in the in-memory
  store; and the refetch interval is \<^verbatim>\<open>false\<close>, so that a session ends with this
  request whatever the service would answer later. Were the same answer fetched again,
  no further call and no further invalidation would be made.
\<close>

theorem C1_ready_settles:
  assumes polled: "enabled taskId (Some pid)"
    and observed: "queryFn getStartTask taskId = Inr (Some t)"
    and new: "data (taskQuery h) \<noteq> Some t"
    and ready: "status t = ''READY''"
    and result: "truthy (app_conversation_id t)"
  shows "(let h' = poll ck getStartTask taskId (Some pid) h in
          calls h' = calls h @ [InvalidateQueries [''user'', ''conversation'', pid],
                                SetConversationState pid clear_task_id,
                                SetSubConversationTaskId None]
        \<and> invalidated (world h') = invalidated (world h) @ [[''user'', ''conversation'', pid]]
        \<and> map_option subConversationTaskId_opt
             (localStorage (world h') (conversation_state_key ck pid)) = Some (Some None)
        \<and> subConversationTaskId (getConversationState ck (localStorage (world h')) pid) = None
        \<and> store_subConversationTaskId (conversationStore (world h')) = None
        \<and> interval h' = None
        \<and> session ck taskId (Some pid) (getStartTask # later) h = h'
        \<and> calls (poll ck getStartTask taskId (Some pid) h') = calls h'
        \<and> invalidated (world (poll ck getStartTask taskId (Some pid) h')) =
            invalidated (world h'))"
proof -
  from polled have "pid \<noteq> []"
    by (simp add: enabled_def truthy_simps)
  with ready result have eff: "settlement_effect (Some t) (Some pid) =
      [InvalidateQueries [''user'', ''conversation'', pid],
       SetConversationState pid clear_task_id, SetSubConversationTaskId None]"
    by (simp add: settlement_effect_def)
  from ready have stop: "refetchInterval (Some t) = None"
    by (simp add: refetchInterval_def)
  note post = poll_observed [OF polled observed new eff, of ck]
  have ends: "session ck taskId (Some pid) (getStartTask # later) h =
      poll ck getStartTask taskId (Some pid) h"
    by (simp add: Let_def post(3) stop)
  have held: "data (taskQuery (poll ck getStartTask taskId (Some pid) h)) = Some t"
    by (simp add: post(4))
  note again = poll_repeated [OF polled observed held, of ck]
  have once: "calls (poll ck getStartTask taskId (Some pid)
                  (poll ck getStartTask taskId (Some pid) h)) =
                calls (poll ck getStartTask taskId (Some pid) h)"
      "invalidated (world (poll ck getStartTask taskId (Some pid)
                  (poll ck getStartTask taskId (Some pid) h))) =
                invalidated (world (poll ck getStartTask taskId (Some pid) h))"
    by (simp_all add: again)
  show ?thesis
    unfolding Let_def ends once post stop
    by (simp add: perform_all_simps clear_persisted clear_read_back setSubConversationTaskId_def)
qed

text \<open>
  The scenario of the hook's tests: \<^verbatim>\<open>task-123\<close> of \<^verbatim>\<open>parent-conv-123\<close> resolves
  \<^verbatim>\<open>READY\<close> with result \<^verbatim>\<open>sub-conv-456\<close>, for a hook that has just mounted.
\<close>

theorem C1_ready_settles_witness:
  "(let h' = poll scenario_ck (resolves (makeTask ''READY'' (Some ''sub-conv-456'')))
               (Some ''task-123'') (Some ''parent-conv-123'') (mount scenario_world) in
     calls h' = [InvalidateQueries [''user'', ''conversation'', ''parent-conv-123''],
                 SetConversationState ''parent-conv-123'' clear_task_id,
                 SetSubConversationTaskId None]
   \<and> invalidated (world h') = [[''user'', ''conversation'', ''parent-conv-123'']]
   \<and> subConversationTaskId
        (getConversationState scenario_ck (localStorage (world h')) ''parent-conv-123'') = None
   \<and> store_subConversationTaskId (conversationStore (world h')) = None
   \<and> interval h' = None
   \<and> invalidated (world (poll scenario_ck (resolves (makeTask ''READY'' (Some ''sub-conv-456'')))
        (Some ''task-123'') (Some ''parent-conv-123'') h'))
      = [[''user'', ''conversation'', ''parent-conv-123'']])"
proof -
  have new: "data (taskQuery (mount scenario_world :: string polling))
      \<noteq> Some (makeTask ''READY'' (Some ''sub-conv-456''))"
    by (simp add: mount_def)
  have ready: "status (makeTask ''READY'' (Some ''sub-conv-456'')) = ''READY''"
    by (simp add: makeTask_def)
  have result: "truthy (app_conversation_id (makeTask ''READY'' (Some ''sub-conv-456'')))"
    by (simp add: makeTask_def truthy_simps)
  show ?thesis
    using C1_ready_settles [OF scenario_polled scenario_observed new ready result,
            of scenario_ck]
    by (simp add: Let_def mount_def scenario_world_def)
qed

text \<open>
  C1 as stated fails when the result reference is the empty string, which is not
  \<^verbatim>\<open>null\<close>: the guard \<^verbatim>\<open>task.app_conversation_id\<close> is falsy, the status is not
  \<^verbatim>\<open>ERROR\<close>, and the effect does nothing. The task is observed, nothing is invalidated
  and both stores still track \<^verbatim>\<open>task-123\<close>.
\<close>

theorem C1_empty_reference_counterexample:
  "enabled (Some ''task-123'') (Some ''parent-conv-123'')
   \<and> status (makeTask ''READY'' (Some [])) = ''READY''
   \<and> app_conversation_id (makeTask ''READY'' (Some [])) \<noteq> None
   \<and> data (taskQuery (mount scenario_world :: string polling)) = None
   \<and> data (taskQuery (poll scenario_ck (resolves (makeTask ''READY'' (Some [])))
        (Some ''task-123'') (Some ''parent-conv-123'') (mount scenario_world)))
      = Some (makeTask ''READY'' (Some []))
   \<and> calls (poll scenario_ck (resolves (makeTask ''READY'' (Some [])))
        (Some ''task-123'') (Some ''parent-conv-123'') (mount scenario_world)) = []
   \<and> invalidated (world (poll scenario_ck (resolves (makeTask ''READY'' (Some [])))
        (Some ''task-123'') (Some ''parent-conv-123'') (mount scenario_world))) = []
   \<and> store_subConversationTaskId (conversationStore (world (poll scenario_ck
        (resolves (makeTask ''READY'' (Some []))) (Some ''task-123'')
        (Some ''parent-conv-123'') (mount scenario_world)))) = Some ''task-123''
   \<and> subConversationTaskId (getConversationState scenario_ck (localStorage (world
        (poll scenario_ck (resolves (makeTask ''READY'' (Some []))) (Some ''task-123'')
           (Some ''parent-conv-123'') (mount scenario_world)))) ''parent-conv-123'')
      = Some ''task-123''"
proof -
  have new: "data (taskQuery (mount scenario_world :: string polling))
      \<noteq> Some (makeTask ''READY'' (Some []))"
    by (simp add: mount_def)
  have eff: "settlement_effect (Some (makeTask ''READY'' (Some []))) (Some ''parent-conv-123'') = []"
    by (simp add: settlement_effect_def makeTask_def truthy_simps)
  note post = poll_observed [OF scenario_polled scenario_observed new eff, of scenario_ck]
  show ?thesis
    unfolding post
    by (simp add: scenario_polled perform_all_simps makeTask_def mount_def scenario_world_def
          getConversationState_def merge_state_def no_keys_def spread_key_def
          DEFAULT_CONVERSATION_STATE_def)
qed

section \<open>Settlement on failure of the task\<close>

text \<open>
  C2. For every polled task observed with status \<^verbatim>\<open>ERROR\<close> (the query is enabled, the
  parent conversation is \<open>pid\<close>, and the answer becomes the query's data: it is not the
  data already held, so the effect runs): the effect issues exactly the calls
  \<^verbatim>\<open>setConversationState(pid, {subConversationTaskId: null})\<close> and
  \<^verbatim>\<open>setSubConversationTaskId(null)\<close>, none of them a cache invalidation, so the
  invalidated keys are unchanged; \<^verbatim>\<open>subConversationTaskId\<close> is \<^verbatim>\<open>null\<close> in the
  persisted record (as stored and as read back) and in the in-memory store; and the
  refetch interval is \<^verbatim>\<open>false\<close>, so that a session ends with this request. Were the
  same answer fetched again, no further call would be made.
\<close>

theorem C2_error_clears_without_invalidation:
  assumes polled: "enabled taskId (Some pid)"
    and observed: "queryFn getStartTask taskId = Inr (Some t)"
    and new: "data (taskQuery h) \<noteq> Some t"
    and failed: "status t = ''ERROR''"
  shows "(let h' = poll ck getStartTask taskId (Some pid) h in
          calls h' = calls h @ [SetConversationState pid clear_task_id,
                                SetSubConversationTaskId None]
        \<and> filter is_invalidation (calls h') = filter is_invalidation (calls h)
        \<and> invalidated (world h') = invalidated (world h)
        \<and> map_option subConversationTaskId_opt
             (localStorage (world h') (conversation_state_key ck pid)) = Some (Some None)
        \<and> subConversationTaskId (getConversationState ck (localStorage (world h')) pid) = None
        \<and> store_subConversationTaskId (conversationStore (world h')) = None
        \<and> interval h' = None
        \<and> session ck taskId (Some pid) (getStartTask # later) h = h'
        \<and> calls (poll ck getStartTask taskId (Some pid) h') = calls h')"
proof -
  from polled have "pid \<noteq> []"
    by (simp add: enabled_def truthy_simps)
  with failed have eff: "settlement_effect (Some t) (Some pid) =
      [SetConversationState pid clear_task_id, SetSubConversationTaskId None]"
    by (simp add: settlement_effect_def)
  from failed have stop: "refetchInterval (Some t) = None"
    by (simp add: refetchInterval_def)
  note post = poll_observed [OF polled observed new eff, of ck]
  have ends: "session ck taskId (Some pid) (getStartTask # later) h =
      poll ck getStartTask taskId (Some pid) h"
    by (simp add: Let_def post(3) stop)
  have held: "data (taskQuery (poll ck getStartTask taskId (Some pid) h)) = Some t"
    by (simp add: post(4))
  have once: "calls (poll ck getStartTask taskId (Some pid)
                  (poll ck getStartTask taskId (Some pid) h)) =
                calls (poll ck getStartTask taskId (Some pid) h)"
    by (simp add: poll_repeated [OF polled observed held])
  show ?thesis
    unfolding Let_def ends once post stop
    by (simp add: perform_all_simps clear_persisted clear_read_back setSubConversationTaskId_def
          is_invalidation_def)
qed

text \<open>
  The scenario of the hook's tests: the same task resolves \<^verbatim>\<open>ERROR\<close>, for a hook that
  has just mounted.
\<close>

theorem C2_error_clears_without_invalidation_witness:
  "(let h' = poll scenario_ck (resolves (makeTask ''ERROR'' None))
               (Some ''task-123'') (Some ''parent-conv-123'') (mount scenario_world) in
     calls h' = [SetConversationState ''parent-conv-123'' clear_task_id,
                 SetSubConversationTaskId None]
   \<and> invalidated (world h') = []
   \<and> subConversationTaskId
        (getConversationState scenario_ck (localStorage (world h')) ''parent-conv-123'') = None
   \<and> store_subConversationTaskId (conversationStore (world h')) = None
   \<and> interval h' = None)"
proof -
  have new: "data (taskQuery (mount scenario_world :: string polling))
      \<noteq> Some (makeTask ''ERROR'' None)"
    by (simp add: mount_def)
  have failed: "status (makeTask ''ERROR'' None) = ''ERROR''"
    by (simp add: makeTask_def)
  show ?thesis
    using C2_error_clears_without_invalidation [OF scenario_polled scenario_observed new failed,
            of scenario_ck]
    by (simp add: Let_def mount_def scenario_world_def)
qed

section \<open>Tasks in progress\<close>

text \<open>
  C4. For every polled task observed with status \<^verbatim>\<open>WORKING\<close> or
  \<^verbatim>\<open>WAITING_FOR_SANDBOX\<close>: the effect makes no call at all, so the persisted records,
  the in-memory store and the invalidated keys are what they were, and the next request
  is scheduled after exactly 3000 ms: a session goes on with the service's next answer.
\<close>

theorem C4_in_progress_keeps_polling:
  assumes polled: "enabled taskId parentConversationId"
    and observed: "queryFn getStartTask taskId = Inr (Some t)"
    and in_progress: "status t = ''WORKING'' \<or> status t = ''WAITING_FOR_SANDBOX''"
  shows "(let h' = poll ck getStartTask taskId parentConversationId h in
          settlement_effect (Some t) parentConversationId = []
        \<and> calls h' = calls h
        \<and> localStorage (world h') = localStorage (world h)
        \<and> conversationStore (world h') = conversationStore (world h)
        \<and> invalidated (world h') = invalidated (world h)
        \<and> refetchInterval (Some t) = Some 3000
        \<and> interval h' = Some 3000
        \<and> session ck taskId parentConversationId (getStartTask # later) h =
            session ck taskId parentConversationId later h')"
proof -
  from in_progress have eff: "settlement_effect (Some t) parentConversationId = []"
    by (auto simp add: settlement_effect_def split: option.splits)
  from in_progress have go_on: "refetchInterval (Some t) = Some 3000"
    by (auto simp add: refetchInterval_def)
  note post = poll_quiet [OF polled observed eff, of ck h]
  have goes_on: "session ck taskId parentConversationId (getStartTask # later) h =
      session ck taskId parentConversationId later
        (poll ck getStartTask taskId parentConversationId h)"
    by (simp add: Let_def post(3) go_on)
  show ?thesis
    unfolding Let_def goes_on post
    by (simp add: eff go_on perform_all_simps)
qed

theorem C4_in_progress_keeps_polling_witness:
  "(let h' = poll scenario_ck (resolves (makeTask ''WAITING_FOR_SANDBOX'' None))
               (Some ''task-123'') (Some ''parent-conv-123'') (mount scenario_world) in
     calls h' = []
   \<and> localStorage (world h') = localStorage scenario_world
   \<and> conversationStore (world h') = \<lparr>store_subConversationTaskId = Some ''task-123''\<rparr>
   \<and> invalidated (world h') = []
   \<and> interval h' = Some 3000)"
proof -
  have in_progress: "status (makeTask ''WAITING_FOR_SANDBOX'' None) = ''WORKING''
      \<or> status (makeTask ''WAITING_FOR_SANDBOX'' None) = ''WAITING_FOR_SANDBOX''"
    by (simp add: makeTask_def)
  show ?thesis
    using C4_in_progress_keeps_polling [OF scenario_polled scenario_observed in_progress,
            of scenario_ck "mount scenario_world"]
    by (simp add: Let_def mount_def scenario_world_def)
qed

section \<open>A finished task without a result reference\<close>

text \<open>
  C9. For every polled task observed with status \<^verbatim>\<open>READY\<close> whose
  \<^verbatim>\<open>app_conversation_id\<close> is \<^verbatim>\<open>null\<close>: the refetch interval is \<^verbatim>\<open>false\<close>, which it
  is for \<^verbatim>\<open>READY\<close> whatever the result reference, yet the effect makes no call: nothing
  is invalidated and the persisted records and the in-memory store, with the task id
  they track, are what they were.
\<close>

theorem C9_ready_without_reference:
  assumes polled: "enabled taskId parentConversationId"
    and observed: "queryFn getStartTask taskId = Inr (Some t)"
    and ready: "status t = ''READY''"
    and no_result: "app_conversation_id t = None"
  shows "(let h' = poll ck getStartTask taskId parentConversationId h in
          interval h' = None
        \<and> refetchInterval (Some (t\<lparr>app_conversation_id := r\<rparr>)) = None
        \<and> calls h' = calls h
        \<and> invalidated (world h') = invalidated (world h)
        \<and> localStorage (world h') = localStorage (world h)
        \<and> conversationStore (world h') = conversationStore (world h)
        \<and> session ck taskId parentConversationId (getStartTask # later) h = h')"
proof -
  from ready no_result have eff: "settlement_effect (Some t) parentConversationId = []"
    by (simp add: settlement_effect_def truthy_simps split: option.splits)
  from ready have stop: "refetchInterval (Some t) = None"
    and stop_any: "refetchInterval (Some (t\<lparr>app_conversation_id := r\<rparr>)) = None"
    by (simp_all add: refetchInterval_def)
  note post = poll_quiet [OF polled observed eff, of ck h]
  have ends: "session ck taskId parentConversationId (getStartTask # later) h =
      poll ck getStartTask taskId parentConversationId h"
    by (simp add: Let_def post(3) stop)
  show ?thesis
    unfolding Let_def ends post
    by (simp add: stop stop_any perform_all_simps)
qed

theorem C9_ready_without_reference_witness:
  "(let h' = poll scenario_ck (resolves (makeTask ''READY'' None))
               (Some ''task-123'') (Some ''parent-conv-123'') (mount scenario_world) in
     interval h' = None
   \<and> calls h' = []
   \<and> invalidated (world h') = []
   \<and> subConversationTaskId
        (getConversationState scenario_ck (localStorage (world h')) ''parent-conv-123'')
       = Some ''task-123''
   \<and> store_subConversationTaskId (conversationStore (world h')) = Some ''task-123'')"
proof -
  have ready: "status (makeTask ''READY'' None) = ''READY''"
    and no_result: "app_conversation_id (makeTask ''READY'' None) = None"
    by (simp_all add: makeTask_def)
  show ?thesis
    using C9_ready_without_reference [OF scenario_polled scenario_observed ready no_result,
            of scenario_ck "mount scenario_world"]
    by (simp add: Let_def mount_def scenario_world_def getConversationState_def
          merge_state_def no_keys_def spread_key_def DEFAULT_CONVERSATION_STATE_def)
qed

section \<open>A request that fails\<close>

text \<open>
  What a rejected request does in general: no call is made, so the persisted records, the
  in-memory store and the invalidated keys are unchanged; the rejection is the
  \<^verbatim>\<open>taskError\<close> the hook returns; and the refetch interval is computed from the data
  of the last successful request.
\<close>

lemma rejection_keeps_stored_state:
  assumes "enabled taskId parentConversationId"
    and "queryFn getStartTask taskId = Inl e"
  shows "calls (poll ck getStartTask taskId parentConversationId h) = calls h"
    and "localStorage (world (poll ck getStartTask taskId parentConversationId h)) =
           localStorage (world h)"
    and "conversationStore (world (poll ck getStartTask taskId parentConversationId h)) =
           conversationStore (world h)"
    and "invalidated (world (poll ck getStartTask taskId parentConversationId h)) =
           invalidated (world h)"
    and "taskError (hook_result (taskQuery (poll ck getStartTask taskId parentConversationId h)))
           = Some e"
    and "interval (poll ck getStartTask taskId parentConversationId h) =
           refetchInterval (data (taskQuery h))"
  using assms by (simp_all add: poll_rejection hook_result_def)

lemma rejection_after_progress_continues:
  assumes "enabled taskId parentConversationId"
    and "queryFn getStartTask taskId = Inl e"
    and "data (taskQuery h) = Some t"
    and "status t \<noteq> ''READY''" and "status t \<noteq> ''ERROR''"
  shows "interval (poll ck getStartTask taskId parentConversationId h) = Some 3000"
  using assms by (simp add: poll_rejection refetchInterval_def)

text \<open>
  C3 at its failing input: \<^verbatim>\<open>task-123\<close> of \<^verbatim>\<open>parent-conv-123\<close>, a hook that has just
  mounted, and a first request that is rejected. The stored state is unchanged and the
  rejection is the returned \<^verbatim>\<open>taskError\<close>, as claimed; but the query has no data, so
  \<^verbatim>\<open>refetchInterval\<close> returns \<^verbatim>\<open>false\<close> and no further request is scheduled: a session
  in which the service would answer the second and third request makes one request only,
  and the task id stays tracked.
\<close>

theorem C3_first_rejection_stops_polling:
  "interval (poll scenario_ck (rejects ''Network Error'') (Some ''task-123'')
      (Some ''parent-conv-123'') (mount scenario_world)) = None
   \<and> taskError (hook_result (taskQuery (poll scenario_ck (rejects ''Network Error'')
        (Some ''task-123'') (Some ''parent-conv-123'') (mount scenario_world))))
      = Some ''Network Error''
   \<and> calls (poll scenario_ck (rejects ''Network Error'') (Some ''task-123'')
        (Some ''parent-conv-123'') (mount scenario_world)) = []
   \<and> requests (world (session scenario_ck (Some ''task-123'') (Some ''parent-conv-123'')
        [rejects ''Network Error'',
         resolves (makeTask ''WORKING'' None),
         resolves (makeTask ''READY'' (Some ''sub-conv-456''))]
        (mount scenario_world))) = [''task-123'']
   \<and> store_subConversationTaskId (conversationStore (world (session scenario_ck
        (Some ''task-123'') (Some ''parent-conv-123'')
        [rejects ''Network Error'',
         resolves (makeTask ''WORKING'' None),
         resolves (makeTask ''READY'' (Some ''sub-conv-456''))]
        (mount scenario_world)))) = Some ''task-123''"
proof -
  have rejected: "queryFn (rejects ''Network Error'') (Some ''task-123'')
      = (Inl ''Network Error'' :: string + V1AppConversationStartTask option)"
    by (simp add: queryFn_def rejects_def)
  note post = poll_rejection [OF scenario_polled rejected, of scenario_ck "mount scenario_world"]
  have no_data: "refetchInterval (data (taskQuery (mount scenario_world :: string polling))) = None"
    by (simp add: mount_def refetchInterval_def)
  show ?thesis
    unfolding session.simps Let_def post no_data
    by (simp add: hook_result_def mount_def scenario_world_def requested_def)
qed

section \<open>Null identifiers\<close>

text \<open>
  C5. When \<^verbatim>\<open>parentConversationId\<close> is \<^verbatim>\<open>null\<close>, whatever \<^verbatim>\<open>taskId\<close> is, and when
  \<^verbatim>\<open>taskId\<close> is \<^verbatim>\<open>null\<close>: a scheduled request leaves the hook and the world as they
  are, so the task service is not called, nothing is written and nothing is invalidated;
  a whole session of a freshly mounted hook, whatever the service would answer, ends in
  the mounted state, with no request, no call, no data and no error; and with a
  \<^verbatim>\<open>null\<close> parent the effect makes no call even on data that is present.
\<close>

theorem C5_null_identifiers_inert:
  "poll ck getStartTask taskId None h = h
   \<and> poll ck getStartTask None parentConversationId h = h
   \<and> settlement_effect d None = []
   \<and> session ck taskId None services (mount w) = mount w
   \<and> session ck None parentConversationId services (mount w) = mount w
   \<and> requests (world (session ck taskId None services (mount w))) = requests w
   \<and> requests (world (session ck None parentConversationId services (mount w))) = requests w
   \<and> calls (session ck taskId None services (mount w)) = []
   \<and> calls (session ck None parentConversationId services (mount w)) = []
   \<and> error (taskQuery (session ck taskId None services (mount w))) = None
   \<and> error (taskQuery (session ck None parentConversationId services (mount w))) = None"
proof -
  have off: "\<not> enabled taskId None" "\<not> enabled None parentConversationId"
    by (simp_all add: enabled_def truthy_simps)
  have idle: "interval (mount w) = None"
    by (simp add: mount_def)
  have s1: "session ck taskId None services (mount w) = mount w"
    by (cases services) (simp_all add: poll_disabled [OF off(1)] idle)
  have s2: "session ck None parentConversationId services (mount w) = mount w"
    by (cases services) (simp_all add: poll_disabled [OF off(2)] idle)
  show ?thesis
    unfolding s1 s2 poll_disabled [OF off(1)] poll_disabled [OF off(2)]
    by (simp add: settlement_effect_def mount_def)
qed

theorem C5_null_identifiers_inert_witness:
  "session scenario_ck (Some ''task-123'') None
     [resolves (makeTask ''READY'' (Some ''sub-conv-456''))] (mount scenario_world)
     = mount scenario_world
   \<and> session scenario_ck None (Some ''parent-conv-123'')
     [resolves (makeTask ''READY'' (Some ''sub-conv-456''))] (mount scenario_world)
     = mount scenario_world
   \<and> requests (world (session scenario_ck (Some ''task-123'') None
       [resolves (makeTask ''READY'' (Some ''sub-conv-456''))] (mount scenario_world))) = []"
proof -
  have none_yet: "requests scenario_world = []"
    by (simp add: scenario_world_def)
  show ?thesis
    using C5_null_identifiers_inert [where ck = scenario_ck and taskId = "Some ''task-123''"
        and parentConversationId = "Some ''parent-conv-123''" and w = scenario_world
        and services = "[resolves (makeTask ''READY'' (Some ''sub-conv-456''))]"
        and getStartTask = "resolves (makeTask ''READY'' (Some ''sub-conv-456''))"
        and h = "mount scenario_world" and d = None]
    by (simp add: none_yet mount_def del: session.simps)
qed

section \<open>The persisted record\<close>

lemma spread_opt_simps:
  "spread_opt a None = a" "spread_opt a (Some v) = Some v"
  by (simp_all add: spread_opt_def)

lemma spread_key_simps:
  "spread_key a None = a" "spread_key a (Some v) = v"
  by (simp_all add: spread_key_def)

lemma set_at_key:
  "setConversationState ck cid updates ls (conversation_state_key ck cid) =
     Some (merge_partial (case ls (conversation_state_key ck cid) of
                            None \<Rightarrow> no_keys | Some stored \<Rightarrow> stored) updates)"
  by (simp add: setConversationState_def Let_def)

lemma set_elsewhere:
  "k \<noteq> conversation_state_key ck cid \<Longrightarrow> setConversationState ck cid updates ls k = ls k"
  by (simp add: setConversationState_def Let_def)

lemma merge_partial_clear_twice:
  "merge_partial (merge_partial a clear_task_id) clear_task_id = merge_partial a clear_task_id"
  by (simp add: merge_partial_def clear_task_id_def no_keys_def spread_opt_simps)

text \<open>
  C6. \<^verbatim>\<open>setConversationState(conversationId, partial)\<close> reads the stored record and
  merges: in the record stored afterwards, a key named in the partial has the partial's
  value and every other key is as it was stored; records of other storage keys are
  untouched; and reading the state back gives the previous state with the partial merged
  over it.
\<close>

theorem C6_set_is_read_modify_merge:
  assumes "ls (conversation_state_key ck cid) = Some stored"
  shows "\<exists>stored'.
           setConversationState ck cid updates ls (conversation_state_key ck cid) = Some stored'
         \<and> selectedTab_opt stored' =
             (if selectedTab_opt updates = None then selectedTab_opt stored
              else selectedTab_opt updates)
         \<and> rightPanelShown_opt stored' =
             (if rightPanelShown_opt updates = None then rightPanelShown_opt stored
              else rightPanelShown_opt updates)
         \<and> unpinnedTabs_opt stored' =
             (if unpinnedTabs_opt updates = None then unpinnedTabs_opt stored
              else unpinnedTabs_opt updates)
         \<and> subConversationTaskId_opt stored' =
             (if subConversationTaskId_opt updates = None then subConversationTaskId_opt stored
              else subConversationTaskId_opt updates)
         \<and> (\<forall>k. k \<noteq> conversation_state_key ck cid \<longrightarrow>
                setConversationState ck cid updates ls k = ls k)
         \<and> getConversationState ck (setConversationState ck cid updates ls) cid =
             merge_state (getConversationState ck ls cid) updates"
  using assms
  by (auto simp add: set_at_key set_elsewhere get_after_set merge_partial_def spread_opt_simps)

text \<open>
  The merge scenario of the storage tests: over the stored record
  \<^verbatim>\<open>{selectedTab:"changes", rightPanelShown:false, unpinnedTabs:["tab-1"],
  subConversationTaskId:"old"}\<close>, setting \<^verbatim>\<open>{subConversationTaskId:"new"}\<close> stores the
  same record with only \<^verbatim>\<open>subConversationTaskId\<close> changed.
\<close>

theorem C6_set_is_read_modify_merge_witness:
  "setConversationState scenario_ck ''conv-123''
     (no_keys\<lparr>subConversationTaskId_opt := Some (Some ''new'')\<rparr>)
     [conversation_state_key scenario_ck ''conv-123'' \<mapsto> stored_changes]
     (conversation_state_key scenario_ck ''conv-123'')
   = Some \<lparr>selectedTab_opt = Some ''changes'', rightPanelShown_opt = Some False,
           unpinnedTabs_opt = Some [''tab-1''],
           subConversationTaskId_opt = Some (Some ''new'')\<rparr>
   \<and> getConversationState scenario_ck
       (setConversationState scenario_ck ''conv-123''
          (no_keys\<lparr>subConversationTaskId_opt := Some (Some ''new'')\<rparr>)
          [conversation_state_key scenario_ck ''conv-123'' \<mapsto> stored_changes]) ''conv-123''
     = \<lparr>selectedTab = ''changes'', rightPanelShown = False, unpinnedTabs = [''tab-1''],
        subConversationTaskId = Some ''new''\<rparr>"
proof -
  have stored: "[conversation_state_key scenario_ck ''conv-123'' \<mapsto> stored_changes]
      (conversation_state_key scenario_ck ''conv-123'') = Some stored_changes"
    by simp
  have before: "getConversationState scenario_ck
      [conversation_state_key scenario_ck ''conv-123'' \<mapsto> stored_changes] ''conv-123''
      = \<lparr>selectedTab = ''changes'', rightPanelShown = False, unpinnedTabs = [''tab-1''],
         subConversationTaskId = Some ''old''\<rparr>"
    by (simp add: getConversationState_def merge_state_def stored_changes_def spread_key_simps)
  from C6_set_is_read_modify_merge [where ck = scenario_ck and cid = "''conv-123''"
         and ls = "[conversation_state_key scenario_ck ''conv-123'' \<mapsto> stored_changes]"
         and stored = stored_changes
         and updates = "no_keys\<lparr>subConversationTaskId_opt := Some (Some ''new'')\<rparr>",
         OF stored]
  obtain stored' where
    "setConversationState scenario_ck ''conv-123''
       (no_keys\<lparr>subConversationTaskId_opt := Some (Some ''new'')\<rparr>)
       [conversation_state_key scenario_ck ''conv-123'' \<mapsto> stored_changes]
       (conversation_state_key scenario_ck ''conv-123'') = Some stored'"
    and "selectedTab_opt stored' = Some ''changes''"
    and "rightPanelShown_opt stored' = Some False"
    and "unpinnedTabs_opt stored' = Some [''tab-1'']"
    and "subConversationTaskId_opt stored' = Some (Some ''new'')"
    and "getConversationState scenario_ck
       (setConversationState scenario_ck ''conv-123''
          (no_keys\<lparr>subConversationTaskId_opt := Some (Some ''new'')\<rparr>)
          [conversation_state_key scenario_ck ''conv-123'' \<mapsto> stored_changes]) ''conv-123''
       = merge_state (getConversationState scenario_ck
           [conversation_state_key scenario_ck ''conv-123'' \<mapsto> stored_changes] ''conv-123'')
           (no_keys\<lparr>subConversationTaskId_opt := Some (Some ''new'')\<rparr>)"
    by (auto simp add: no_keys_def stored_changes_def)
  then show ?thesis
    by (cases stored') (simp add: before merge_state_def no_keys_def spread_key_simps)
qed

text \<open>
  C7. The settlement clear \<^verbatim>\<open>setConversationState(id, {subConversationTaskId: null})\<close>
  is idempotent: applied a second time in a row it leaves the persisted state as the
  first application left it, and so do the two clearing calls of the effect on the world;
  and when the state read for the conversation already has a \<^verbatim>\<open>null\<close>
  \<^verbatim>\<open>subConversationTaskId\<close>, the clear changes the state read for no conversation.
\<close>

theorem C7_clear_is_idempotent:
  "setConversationState ck cid clear_task_id (setConversationState ck cid clear_task_id ls)
     = setConversationState ck cid clear_task_id ls
   \<and> perform_all ck [SetConversationState cid clear_task_id, SetSubConversationTaskId None]
       (perform_all ck [SetConversationState cid clear_task_id, SetSubConversationTaskId None] w)
     = perform_all ck [SetConversationState cid clear_task_id, SetSubConversationTaskId None] w
   \<and> (subConversationTaskId (getConversationState ck ls cid) = None \<longrightarrow>
        (\<forall>c. getConversationState ck (setConversationState ck cid clear_task_id ls) c
              = getConversationState ck ls c))"
proof -
  have twice: "setConversationState ck cid clear_task_id
      (setConversationState ck cid clear_task_id l) = setConversationState ck cid clear_task_id l"
    for l
    by (simp add: setConversationState_def Let_def merge_partial_clear_twice)
  have same: "getConversationState ck (setConversationState ck cid clear_task_id ls) c
      = getConversationState ck ls c"
    if "subConversationTaskId (getConversationState ck ls cid) = None" for c
  proof (cases "c = cid")
    case True
    have "merge_state s clear_task_id = s" if "subConversationTaskId s = None"
      for s :: ConversationState
      using that by (simp add: merge_state_def clear_task_id_def no_keys_def spread_key_simps)
    with that True show ?thesis
      by (simp add: get_after_set)
  next
    case False
    then show ?thesis
      by (simp add: get_after_set_other)
  qed
  show ?thesis
    by (simp add: twice same perform_all_simps setSubConversationTaskId_def)
qed

text \<open>
  A duplicate clear where nothing is stored for \<^verbatim>\<open>conv-123\<close>, so that the state read
  already has a \<^verbatim>\<open>null\<close> task id: one clear and two clears store the same, the state
  read stays the default one, and in the scenario's world the clearing calls made twice
  leave what they leave when made once.
\<close>

theorem C7_clear_is_idempotent_witness:
  "setConversationState scenario_ck ''conv-123'' clear_task_id
     (setConversationState scenario_ck ''conv-123'' clear_task_id Map.empty)
   = setConversationState scenario_ck ''conv-123'' clear_task_id Map.empty
   \<and> subConversationTaskId (getConversationState scenario_ck Map.empty ''conv-123'') = None
   \<and> getConversationState scenario_ck
       (setConversationState scenario_ck ''conv-123'' clear_task_id Map.empty) ''conv-123''
     = DEFAULT_CONVERSATION_STATE
   \<and> perform_all scenario_ck
       [SetConversationState ''conv-123'' clear_task_id, SetSubConversationTaskId None]
       (perform_all scenario_ck
          [SetConversationState ''conv-123'' clear_task_id, SetSubConversationTaskId None]
          scenario_world)
     = perform_all scenario_ck
         [SetConversationState ''conv-123'' clear_task_id, SetSubConversationTaskId None]
         scenario_world"
proof -
  have before: "getConversationState scenario_ck Map.empty ''conv-123'' = DEFAULT_CONVERSATION_STATE"
    by (simp add: getConversationState_def)
  have cleared: "subConversationTaskId (getConversationState scenario_ck Map.empty ''conv-123'') = None"
    by (simp add: before DEFAULT_CONVERSATION_STATE_def)
  show ?thesis
    using C7_clear_is_idempotent [of scenario_ck "''conv-123''" Map.empty scenario_world] cleared
    by (simp add: before)
qed

text \<open>
  C8. \<^verbatim>\<open>getConversationState(conversationId)\<close> returns a complete record, the default
  values with the stored record (none, partial or complete) merged over them: each field
  is the stored value when its key is stored and the default otherwise. The storage key
  is the fixed prefix \<open>ck @ ''-''\<close> followed by the conversation id, and
  \<^verbatim>\<open>setConversationState\<close> stores a record under that key and changes no other key.
\<close>

theorem C8_get_merges_defaults_set_writes_key:
  "getConversationState ck ls cid =
     merge_state DEFAULT_CONVERSATION_STATE
       (case ls ((ck @ ''-'') @ cid) of None \<Rightarrow> no_keys | Some stored \<Rightarrow> stored)
   \<and> selectedTab (getConversationState ck ls cid) =
       (case Option.bind (ls ((ck @ ''-'') @ cid)) selectedTab_opt of
          None \<Rightarrow> ''editor'' | Some v \<Rightarrow> v)
   \<and> rightPanelShown (getConversationState ck ls cid) =
       (case Option.bind (ls ((ck @ ''-'') @ cid)) rightPanelShown_opt of
          None \<Rightarrow> True | Some v \<Rightarrow> v)
   \<and> unpinnedTabs (getConversationState ck ls cid) =
       (case Option.bind (ls ((ck @ ''-'') @ cid)) unpinnedTabs_opt of
          None \<Rightarrow> [] | Some v \<Rightarrow> v)
   \<and> subConversationTaskId (getConversationState ck ls cid) =
       (case Option.bind (ls ((ck @ ''-'') @ cid)) subConversationTaskId_opt of
          None \<Rightarrow> None | Some v \<Rightarrow> v)
   \<and> conversation_state_key ck cid = (ck @ ''-'') @ cid
   \<and> setConversationState ck cid updates ls ((ck @ ''-'') @ cid) \<noteq> None
   \<and> (\<forall>k. k \<noteq> (ck @ ''-'') @ cid \<longrightarrow> setConversationState ck cid updates ls k = ls k)"
proof -
  have key: "conversation_state_key ck cid = (ck @ ''-'') @ cid"
    by (simp add: conversation_state_key_def)
  have read: "getConversationState ck ls cid =
      merge_state DEFAULT_CONVERSATION_STATE
        (case ls ((ck @ ''-'') @ cid) of None \<Rightarrow> no_keys | Some stored \<Rightarrow> stored)"
    unfolding getConversationState_def key
    by (simp add: merge_state_no_keys split: option.splits)
  have fields:
    "selectedTab (getConversationState ck ls cid) =
       (case Option.bind (ls ((ck @ ''-'') @ cid)) selectedTab_opt of
          None \<Rightarrow> ''editor'' | Some v \<Rightarrow> v)"
    "rightPanelShown (getConversationState ck ls cid) =
       (case Option.bind (ls ((ck @ ''-'') @ cid)) rightPanelShown_opt of
          None \<Rightarrow> True | Some v \<Rightarrow> v)"
    "unpinnedTabs (getConversationState ck ls cid) =
       (case Option.bind (ls ((ck @ ''-'') @ cid)) unpinnedTabs_opt of
          None \<Rightarrow> [] | Some v \<Rightarrow> v)"
    "subConversationTaskId (getConversationState ck ls cid) =
       (case Option.bind (ls ((ck @ ''-'') @ cid)) subConversationTaskId_opt of
          None \<Rightarrow> None | Some v \<Rightarrow> v)"
    unfolding read
    by (simp_all add: merge_state_def DEFAULT_CONVERSATION_STATE_def no_keys_def
          spread_key_def split: option.splits)
  have written: "setConversationState ck cid updates ls ((ck @ ''-'') @ cid) \<noteq> None"
    using set_at_key [of ck cid updates ls] by (simp add: key)
  have others: "\<forall>k. k \<noteq> (ck @ ''-'') @ cid \<longrightarrow> setConversationState ck cid updates ls k = ls k"
    using set_elsewhere [of _ ck cid updates ls] by (simp add: key)
  from read fields key written others show ?thesis
    by (intro conjI)
qed

text \<open>
  The storage test \<^verbatim>\<open>merges stored state with defaults when partial state exists\<close>:
  only \<^verbatim>\<open>{subConversationTaskId: "task-123"}\<close> is stored for \<^verbatim>\<open>conv-123\<close>.
\<close>

theorem C8_get_merges_defaults_set_writes_key_witness:
  "getConversationState scenario_ck
     [''conversation-state-conv-123'' \<mapsto>
        no_keys\<lparr>subConversationTaskId_opt := Some (Some ''task-123'')\<rparr>] ''conv-123''
   = \<lparr>selectedTab = ''editor'', rightPanelShown = True, unpinnedTabs = [],
      subConversationTaskId = Some ''task-123''\<rparr>
   \<and> conversation_state_key scenario_ck ''conv-123'' = ''conversation-state-conv-123''
   \<and> setConversationState scenario_ck ''conv-123'' clear_task_id Map.empty
        ''conversation-state-conv-123'' \<noteq> None
   \<and> setConversationState scenario_ck ''conv-123'' clear_task_id Map.empty
        ''conversation-state-conv-124'' = None"
proof -
  note get = C8_get_merges_defaults_set_writes_key [of scenario_ck
      "[''conversation-state-conv-123'' \<mapsto>
          no_keys\<lparr>subConversationTaskId_opt := Some (Some ''task-123'')\<rparr>]" "''conv-123''"]
  note set = C8_get_merges_defaults_set_writes_key [of scenario_ck Map.empty "''conv-123''"
      clear_task_id]
  have "setConversationState scenario_ck ''conv-123'' clear_task_id Map.empty
        ''conversation-state-conv-124'' = None"
    using set by (simp add: scenario_ck_def)
  moreover have "setConversationState scenario_ck ''conv-123'' clear_task_id Map.empty
        ''conversation-state-conv-123'' \<noteq> None"
    using set by (simp add: scenario_ck_def)
  moreover have "getConversationState scenario_ck
     [''conversation-state-conv-123'' \<mapsto>
        no_keys\<lparr>subConversationTaskId_opt := Some (Some ''task-123'')\<rparr>] ''conv-123''
   = \<lparr>selectedTab = ''editor'', rightPanelShown = True, unpinnedTabs = [],
      subConversationTaskId = Some ''task-123''\<rparr>"
    using get
    by (simp add: scenario_ck_def merge_state_def DEFAULT_CONVERSATION_STATE_def no_keys_def spread_key_simps)
  moreover have "conversation_state_key scenario_ck ''conv-123'' = ''conversation-state-conv-123''"
    using get by (simp add: scenario_ck_def)
  ultimately show ?thesis
    by simp
qed

text \<open>
  C10. When nothing is persisted for the conversation, the state returned by
  \<^verbatim>\<open>getConversationState\<close> is exactly: \<^verbatim>\<open>selectedTab\<close> \<^verbatim>\<open>"editor"\<close>,
  \<^verbatim>\<open>rightPanelShown\<close> \<^verbatim>\<open>true\<close>, \<^verbatim>\<open>unpinnedTabs\<close> the empty list and
  \<^verbatim>\<open>subConversationTaskId\<close> \<^verbatim>\<open>null\<close>.
\<close>

theorem C10_default_state:
  assumes "ls (conversation_state_key ck cid) = None"
  shows "getConversationState ck ls cid =
           \<lparr>selectedTab = ''editor'', rightPanelShown = True, unpinnedTabs = [],
            subConversationTaskId = None\<rparr>"
  using assms by (simp add: getConversationState_def DEFAULT_CONVERSATION_STATE_def)

theorem C10_default_state_witness:
  "Map.empty (conversation_state_key scenario_ck ''conv-123'') = (None :: PartialConversationState option)
   \<and> getConversationState scenario_ck Map.empty ''conv-123'' =
       \<lparr>selectedTab = ''editor'', rightPanelShown = True, unpinnedTabs = [],
        subConversationTaskId = None\<rparr>"
proof -
  have nothing: "(Map.empty :: local_storage) (conversation_state_key scenario_ck ''conv-123'') = None"
    by simp
  from C10_default_state [OF nothing] nothing show ?thesis
    by simp
qed

end
